theory Spec2Isabelle
  imports Complex_Main "HOL-Library.AList"
begin

section \<open>JavaScript values used by the server and the extension\<close>

text \<open>
  Strings are sequences of code units; the model uses \<open>string\<close>, so a code unit is
  below 256. A value that may be \<open>undefined\<close> or \<open>null\<close> is an \<open>option\<close>.
  \<open>truthy\<close> is JavaScript's truthiness of such a string value: \<open>undefined\<close>,
  \<open>null\<close> and the empty string are falsy.
\<close>

definition truthy :: "string option \<Rightarrow> bool" where
  "truthy v = (case v of None \<Rightarrow> False | Some s \<Rightarrow> s \<noteq> [])"

text \<open>\<open>a || b\<close> on a string and a string default.\<close>

definition or_else :: "string option \<Rightarrow> string \<Rightarrow> string" where
  "or_else v d = (case v of None \<Rightarrow> d | Some s \<Rightarrow> if s \<noteq> [] then s else d)"

text \<open>\<open>strip_prefix p s\<close>: the rest of \<open>s\<close> after the literal \<open>p\<close>, if \<open>s\<close> starts with it.\<close>

fun strip_prefix :: "string \<Rightarrow> string \<Rightarrow> string option" where
  "strip_prefix [] s = Some s"
| "strip_prefix (p # ps) [] = None"
| "strip_prefix (p # ps) (c # cs) = (if p = c then strip_prefix ps cs else None)"

text \<open>\<open>String.prototype.includes\<close>.\<close>

fun str_includes :: "string \<Rightarrow> string \<Rightarrow> bool" where
  "str_includes [] sub = (sub = [])"
| "str_includes (c # cs) sub =
     (if strip_prefix sub (c # cs) \<noteq> None then True else str_includes cs sub)"

text \<open>Decimal rendering of a non-negative integer, as template literals print it.\<close>

definition digit_char :: "nat \<Rightarrow> char" where
  "digit_char d = ''0123456789'' ! d"

fun dec :: "nat \<Rightarrow> string" where
  "dec n = (if n < 10 then [digit_char n] else dec (n div 10) @ [digit_char (n mod 10)])"

declare dec.simps [simp del]

section \<open>Video identifier extraction (server.js extractVideoId, utils.js extractVideoIdFromUrl)\<close>

text \<open>
  The single pattern of both functions is
  \<^verbatim>\<open>/(?:youtube\.com\/watch\?.*v=|youtu\.be\/|youtube\.com\/embed\/|youtube\.com\/shorts\/)([a-zA-Z0-9_-]{11})/\<close>.
  It is matched as a backtracking matcher does: start positions from left to right, at
  each start the alternatives in order, and inside the first alternative the greedy
  \<open>.*\<close> from its longest extent down to the empty one.
\<close>

definition is_id_char :: "char \<Rightarrow> bool" where
  "is_id_char c =
     (let n = (of_char c :: nat)
      in (97 \<le> n \<and> n \<le> 122) \<or> (65 \<le> n \<and> n \<le> 90) \<or> (48 \<le> n \<and> n \<le> 57)
         \<or> c = CHR ''_'' \<or> c = CHR ''-'')"

text \<open>The capture group \<open>([a-zA-Z0-9_-]{11})\<close> at the start of \<open>s\<close>.\<close>

definition match_id :: "string \<Rightarrow> string option" where
  "match_id s =
     (if 11 \<le> length s \<and> list_all is_id_char (take 11 s) then Some (take 11 s) else None)"

text \<open>\<open>.\<close> matches every code unit but a line terminator.\<close>

definition is_line_terminator :: "char \<Rightarrow> bool" where
  "is_line_terminator c = (c = CHR 0x0A \<or> c = CHR 0x0D)"

text \<open>\<open>v=\<close> and the capture group, after \<open>.*\<close> has consumed \<open>k\<close> code units of \<open>s\<close>.\<close>

definition after_dot_star :: "string \<Rightarrow> nat \<Rightarrow> string option" where
  "after_dot_star s k =
     (case strip_prefix ''v='' (drop k s) of None \<Rightarrow> None | Some r \<Rightarrow> match_id r)"

fun dot_star_v :: "string \<Rightarrow> nat \<Rightarrow> string option" where
  "dot_star_v s 0 = after_dot_star s 0"
| "dot_star_v s (Suc k) =
     (case after_dot_star s (Suc k) of Some i \<Rightarrow> Some i | None \<Rightarrow> dot_star_v s k)"

definition alt_watch :: "string \<Rightarrow> string option" where
  "alt_watch s =
     (case strip_prefix ''youtube.com/watch?'' s of
        None \<Rightarrow> None
      | Some r \<Rightarrow> dot_star_v r (length (takeWhile (\<lambda>c. \<not> is_line_terminator c) r)))"

definition alt_literal :: "string \<Rightarrow> string \<Rightarrow> string option" where
  "alt_literal p s = (case strip_prefix p s of None \<Rightarrow> None | Some r \<Rightarrow> match_id r)"

text \<open>One match attempt at the start of \<open>s\<close>: the four alternatives in order.\<close>

definition match_here :: "string \<Rightarrow> string option" where
  "match_here s =
     (case alt_watch s of Some i \<Rightarrow> Some i | None \<Rightarrow>
     (case alt_literal ''youtu.be/'' s of Some i \<Rightarrow> Some i | None \<Rightarrow>
     (case alt_literal ''youtube.com/embed/'' s of Some i \<Rightarrow> Some i | None \<Rightarrow>
      alt_literal ''youtube.com/shorts/'' s)))"

text \<open>\<open>url.match(pattern)\<close>: the leftmost start position that matches.\<close>

fun regex_search :: "string \<Rightarrow> string option" where
  "regex_search [] = match_here []"
| "regex_search (c # cs) =
     (case match_here (c # cs) of Some i \<Rightarrow> Some i | None \<Rightarrow> regex_search cs)"

text \<open>
  server.js: the loop over the one-element pattern list returns \<open>match[1]\<close> of the first
  match, else \<open>null\<close>.
\<close>

definition extractVideoId :: "string \<Rightarrow> string option" where
  "extractVideoId url =
     (case regex_search url of Some i \<Rightarrow> (if i \<noteq> [] then Some i else None) | None \<Rightarrow> None)"

text \<open>utils.js: the same, behind the guard \<open>if (!url) return null\<close>.\<close>

definition extractVideoIdFromUrl :: "string option \<Rightarrow> string option" where
  "extractVideoIdFromUrl url =
     (case url of
        None \<Rightarrow> None
      | Some u \<Rightarrow>
          if u = [] then None
          else (case regex_search u of
                  Some i \<Rightarrow> (if i \<noteq> [] then Some i else None) | None \<Rightarrow> None))"

section \<open>Transcription backends (server.js)\<close>

text \<open>
  Times are JavaScript numbers; the model uses rationals, on which comparison, division
  by five and \<open>Math.floor\<close> are exact.
\<close>

record segment =
  seg_start :: rat
  seg_end :: rat
  seg_text :: string

record transcription =
  tr_text :: string
  tr_language :: string
  tr_segments :: "segment list"

text \<open>Outcome of a spawned process: it could not be spawned, or it closed with an exit
  code, its stderr text and what it produced.\<close>

datatype 'a proc = SpawnError string | Closed int string 'a

subsection \<open>Local backend: the argument vector of the recognizer\<close>

text \<open>The regular expression \<^verbatim>\<open>/\.[^/.]+$/\<close>: the last dot, when at least one code unit
  follows it and no slash does.\<close>

definition split_ext :: "string \<Rightarrow> (string \<times> string) option" where
  "split_ext s =
     (let e = takeWhile (\<lambda>c. c \<noteq> CHR ''.'' \<and> c \<noteq> CHR ''/'') (rev s)
      in case drop (length e) (rev s) of
           [] \<Rightarrow> None
         | c # stem \<Rightarrow> if c = CHR ''.'' \<and> e \<noteq> [] then Some (rev stem, rev e) else None)"

definition replace_ext :: "string \<Rightarrow> string \<Rightarrow> string" where
  "replace_ext s r = (case split_ext s of None \<Rightarrow> s | Some (stem, e) \<Rightarrow> stem @ r)"

definition basename :: "string \<Rightarrow> string" where
  "basename p = rev (takeWhile (\<lambda>c. c \<noteq> CHR ''/'') (rev p))"

definition join :: "string \<Rightarrow> string \<Rightarrow> string" where
  "join a b = a @ ''/'' @ b"

definition transcribeLocal_args ::
  "string \<Rightarrow> string option \<Rightarrow> string \<Rightarrow> string \<Rightarrow> string list" where
  "transcribeLocal_args audioPath language model outputDir =
     [audioPath, ''--model'', model, ''--output_format'', ''json'', ''--output_dir'', outputDir]
     @ (case language of
          None \<Rightarrow> []
        | Some l \<Rightarrow> if l \<noteq> [] \<and> l \<noteq> ''auto'' then [''--language'', l] else [])"

text \<open>What the recognizer left at the JSON output path. After reading it the source
  unlinks it and its sibling subtitle files; those unlinks touch no path the handler's
  \<open>cleanup\<close> looks at and are left out.\<close>

record whisper_json =
  wj_text :: "string option"
  wj_language :: "string option"
  wj_segments :: "segment list option"

datatype whisper_file = Absent | Unparsable string | Parsed whisper_json

definition transcribeLocal ::
  "(string list \<Rightarrow> whisper_file proc) \<Rightarrow> string \<Rightarrow> string \<Rightarrow> string \<Rightarrow> string option
     \<Rightarrow> string + transcription" where
  "transcribeLocal whisper outputDir model audioPath language =
     (case whisper (transcribeLocal_args audioPath language model outputDir) of
        SpawnError m \<Rightarrow>
          Inl (''Whisper not found. Install with: pip install openai-whisper'' @ [CHR 0x0A] @ m)
      | Closed code stderr f \<Rightarrow>
          if code = 0 then
            (case f of
               Parsed r \<Rightarrow>
                 Inr \<lparr>tr_text = or_else (wj_text r) [],
                      tr_language = or_else (wj_language r) ''unknown'',
                      tr_segments = (case wj_segments r of None \<Rightarrow> [] | Some sg \<Rightarrow> sg)\<rparr>
             | Unparsable e \<Rightarrow> Inl (''Failed to parse Whisper output: '' @ e)
             | Absent \<Rightarrow>
                 Inl (''Whisper output file not found at: ''
                      @ join outputDir (replace_ext (basename audioPath) [] @ ''.json'')))
          else Inl (if stderr \<noteq> [] then stderr else ''Whisper transcription failed''))"

subsection \<open>Cloud backend A: the multipart form\<close>

datatype form_value = Text string | File string string string

definition transcribeAPI_form :: "string \<Rightarrow> string option \<Rightarrow> (string \<times> form_value) list" where
  "transcribeAPI_form audioPath language =
     [(''file'', File audioPath (basename audioPath) ''audio/mpeg''),
      (''model'', Text ''whisper-1''),
      (''response_format'', Text ''verbose_json''),
      (''temperature'', Text ''0'')]
     @ (case language of
          None \<Rightarrow> []
        | Some l \<Rightarrow> if l \<noteq> [] \<and> l \<noteq> ''auto'' then [(''language'', Text l)] else [])"

text \<open>The reply of the speech API: the request failed, a status outside 2xx with the
  message of the error body when it has one, or a 2xx status with the parsed body (or the
  message of the error thrown while reading it).\<close>

datatype openai_response =
  OpenAI_FetchFailed string
| OpenAI_NotOk nat "string option"
| OpenAI_Ok "string + whisper_json"

definition bearer :: "string option \<Rightarrow> string" where
  "bearer apiKey = ''Bearer '' @ (case apiKey of None \<Rightarrow> ''undefined'' | Some k \<Rightarrow> k)"

text \<open>The handler reads \<open>text\<close>, \<open>language\<close> and \<open>segments || []\<close> of the body; the model
  reads them here.\<close>

definition transcribeAPI ::
  "((string \<times> form_value) list \<Rightarrow> string \<Rightarrow> openai_response) \<Rightarrow> string \<Rightarrow> string option
     \<Rightarrow> string option \<Rightarrow> string + transcription" where
  "transcribeAPI post audioPath apiKey language =
     (case post (transcribeAPI_form audioPath language) (bearer apiKey) of
        OpenAI_FetchFailed m \<Rightarrow> Inl m
      | OpenAI_NotOk status m \<Rightarrow>
          Inl (if truthy m then or_else m [] else ''Whisper API error: '' @ dec status)
      | OpenAI_Ok (Inl m) \<Rightarrow> Inl m
      | OpenAI_Ok (Inr r) \<Rightarrow>
          Inr \<lparr>tr_text = or_else (wj_text r) [],
               tr_language = or_else (wj_language r) [],
               tr_segments = (case wj_segments r of None \<Rightarrow> [] | Some sg \<Rightarrow> sg)\<rparr>)"

subsection \<open>Cloud backend B (Deepgram): model selection, request URL, segment synthesis\<close>

definition DEEPGRAM_API_URL :: string where
  "DEEPGRAM_API_URL = ''https://api.deepgram.com/v1/listen''"

definition DEEPGRAM_NOVA2_LANGUAGES :: "string list" where
  "DEEPGRAM_NOVA2_LANGUAGES =
     [''en'', ''en-US'', ''en-GB'', ''en-AU'', ''en-NZ'', ''en-IN'',
      ''es'', ''es-419'', ''es-ES'',
      ''fr'', ''fr-CA'',
      ''de'', ''it'',
      ''pt'', ''pt-BR'', ''pt-PT'',
      ''nl'', ''hi'', ''ja'',
      ''zh'', ''zh-CN'', ''zh-TW'',
      ''ko'', ''pl'', ''ru'', ''tr'', ''uk'', ''sv'', ''da'', ''no'', ''fi'', ''id'', ''ms'',
      ''th'', ''vi'', ''ta'', ''te'', ''cs'', ''el'', ''ro'', ''bg'', ''hu'', ''sk'', ''hr'',
      ''ca'', ''taq'']"

definition useWhisper :: "string option \<Rightarrow> bool" where
  "useWhisper language =
     (case language of
        None \<Rightarrow> False
      | Some l \<Rightarrow> l \<noteq> [] \<and> l \<noteq> ''auto'' \<and> l \<notin> set DEEPGRAM_NOVA2_LANGUAGES)"

definition deepgram_model :: "string option \<Rightarrow> string" where
  "deepgram_model language = (if useWhisper language then ''whisper-large'' else ''nova-2'')"

definition deepgram_url :: "string option \<Rightarrow> string" where
  "deepgram_url language =
     DEEPGRAM_API_URL @ ''?model='' @ deepgram_model language @ ''&smart_format=true&diarize=false''
     @ (case language of
          None \<Rightarrow> []
        | Some l \<Rightarrow> if l \<noteq> [] \<and> l \<noteq> ''auto'' then ''&language='' @ l else [])"

record dg_word =
  w_start :: rat
  w_punctuated_word :: "string option"
  w_word :: string

record dg_alternative =
  transcript :: string
  dg_words :: "dg_word list option"

definition SEGMENT_DURATION :: rat where
  "SEGMENT_DURATION = 5"

text \<open>The body of \<open>words.forEach\<close>: the state is the list of pushed segments and the
  current segment.\<close>

definition add_word :: "segment list \<times> segment \<Rightarrow> dg_word \<Rightarrow> segment list \<times> segment" where
  "add_word st w =
     (let sgs = fst st; cur = snd st;
          wordStart = w_start w;
          content = or_else (w_punctuated_word w) (w_word w);
          st' = (if wordStart \<ge> seg_end cur then
                   (let newStart = of_int (floor (wordStart / SEGMENT_DURATION)) * SEGMENT_DURATION
                    in (if seg_text cur \<noteq> [] then sgs @ [cur] else sgs,
                        \<lparr>seg_start = newStart, seg_end = newStart + SEGMENT_DURATION,
                         seg_text = []\<rparr>))
                 else (sgs, cur));
          cur' = snd st'
      in (fst st',
          cur'\<lparr>seg_text := (if seg_text cur' \<noteq> [] then seg_text cur' @ '' '' @ content
                              else content)\<rparr>))"

definition deepgram_segments :: "dg_alternative \<Rightarrow> segment list" where
  "deepgram_segments alternative =
     (let ws = (case dg_words alternative of None \<Rightarrow> [] | Some l \<Rightarrow> l)
      in if length ws > 0 then
           (let st = foldl add_word
                       ([], \<lparr>seg_start = 0, seg_end = SEGMENT_DURATION, seg_text = []\<rparr>) ws
            in if seg_text (snd st) \<noteq> [] then fst st @ [snd st] else fst st)
         else [\<lparr>seg_start = 0, seg_end = 0, seg_text = transcript alternative\<rparr>])"

datatype deepgram_response =
  Deepgram_FetchFailed string
| Deepgram_NotOk nat "string option" "string option"
| Deepgram_Ok "string + dg_alternative option"

definition token :: "string option \<Rightarrow> string" where
  "token apiKey = ''Token '' @ (case apiKey of None \<Rightarrow> ''undefined'' | Some k \<Rightarrow> k)"

text \<open>The request carries the URL, the authorization header and the bytes of the file at
  \<open>audioPath\<close>.\<close>

definition transcribeDeepgram ::
  "(string \<Rightarrow> string \<Rightarrow> string \<Rightarrow> deepgram_response) \<Rightarrow> string \<Rightarrow> string option
     \<Rightarrow> string option \<Rightarrow> string + transcription" where
  "transcribeDeepgram post audioPath apiKey language =
     (case post (deepgram_url language) (token apiKey) audioPath of
        Deepgram_FetchFailed m \<Rightarrow> Inl m
      | Deepgram_NotOk status err_msg reason \<Rightarrow>
          Inl (if truthy err_msg then or_else err_msg []
               else if truthy reason then or_else reason []
               else ''Deepgram API error: '' @ dec status)
      | Deepgram_Ok (Inl m) \<Rightarrow> Inl m
      | Deepgram_Ok (Inr None) \<Rightarrow> Inr \<lparr>tr_text = [], tr_language = ''unknown'', tr_segments = []\<rparr>
      | Deepgram_Ok (Inr (Some alternative)) \<Rightarrow>
          Inr \<lparr>tr_text = transcript alternative, tr_language = ''detected'',
               tr_segments = deepgram_segments alternative\<rparr>)"

section \<open>Metadata lookup and audio download (server.js)\<close>

text \<open>yt-dlp reports the duration of a video in whole seconds.\<close>

record videoInfo =
  vi_id :: string
  vi_title :: string
  vi_duration :: int
  vi_channel :: string
  vi_thumbnail :: string
  vi_isLive :: bool

text \<open>\<open>ytdlp_json url\<close> is the outcome of \<^verbatim>\<open>yt-dlp --dump-json --no-download url\<close>, its
  standard output already parsed (\<open>None\<close> when \<open>JSON.parse\<close> throws).\<close>

definition getVideoInfo ::
  "(string \<Rightarrow> videoInfo option proc) \<Rightarrow> string \<Rightarrow> string + videoInfo" where
  "getVideoInfo ytdlp_json url =
     (case ytdlp_json url of
        SpawnError m \<Rightarrow> Inl (''yt-dlp not found: '' @ m)
      | Closed code stderr out \<Rightarrow>
          if code = 0 then
            (case out of Some info \<Rightarrow> Inr info | None \<Rightarrow> Inl ''Failed to parse video info'')
          else Inl (if stderr \<noteq> [] then stderr else ''Failed to get video info''))"

text \<open>\<open>fs\<close> is the set of paths that exist (\<open>existsSync\<close>) once the downloader has
  closed.\<close>

definition downloadAudio ::
  "(string \<Rightarrow> string \<Rightarrow> unit proc) \<Rightarrow> string set \<Rightarrow> string \<Rightarrow> string \<Rightarrow> string + string" where
  "downloadAudio ytdlp_audio fs url outputPath =
     (case ytdlp_audio url outputPath of
        SpawnError m \<Rightarrow> Inl (''yt-dlp not found: '' @ m)
      | Closed code stderr u \<Rightarrow>
          if code = 0 then
            (case filter (\<lambda>p. p \<in> fs)
                    [outputPath, outputPath @ ''.mp3'', replace_ext outputPath ''.mp3''] of
               p # ps \<Rightarrow> Inr p
             | [] \<Rightarrow> Inl ''Audio file not found after download'')
          else Inl (if stderr \<noteq> [] then stderr else ''Failed to download audio''))"

text \<open>\<open>cleanup\<close>: an existing file is unlinked; \<open>unlink_fails p\<close> says that the unlink of
  \<open>p\<close> reports an error, which the callback logs and nothing else. The result is the set
  of paths that exist once the unlink has completed.\<close>

definition cleanup :: "(string \<Rightarrow> bool) \<Rightarrow> string set \<Rightarrow> string \<Rightarrow> string set" where
  "cleanup unlink_fails fs filePath =
     (if filePath \<noteq> [] \<and> filePath \<in> fs then
        (if unlink_fails filePath then fs else fs - {filePath})
      else fs)"

section \<open>The /transcribe handler (server.js)\<close>

definition MAX_DURATION_SECONDS :: int where
  "MAX_DURATION_SECONDS = 3 * 60 * 60"

text \<open>The process environment and the external collaborators of one request.\<close>

record world =
  WHISPER_MODE :: "string option"
  WHISPER_MODEL :: "string option"
  tmpdir :: string
  ytdlp_json :: "string \<Rightarrow> videoInfo option proc"
  ytdlp_audio :: "string \<Rightarrow> string \<Rightarrow> unit proc"
  randomUUID :: string
  whisper :: "string list \<Rightarrow> whisper_file proc"
  openai_post :: "(string \<times> form_value) list \<Rightarrow> string \<Rightarrow> openai_response"
  deepgram_post :: "string \<Rightarrow> string \<Rightarrow> string \<Rightarrow> deepgram_response"
  unlink_fails :: "string \<Rightarrow> bool"

definition TRANSCRIPTION_MODE :: "world \<Rightarrow> string" where
  "TRANSCRIPTION_MODE w = or_else (WHISPER_MODE w) ''local''"

definition LOCAL_WHISPER_MODEL :: "world \<Rightarrow> string" where
  "LOCAL_WHISPER_MODEL w = or_else (WHISPER_MODEL w) ''base''"

definition TEMP_DIR :: "world \<Rightarrow> string" where
  "TEMP_DIR w = join (tmpdir w) ''yt-transcriber''"

record request =
  body_url :: "string option"
  body_language :: "string option"
  x_api_key :: "string option"
  authorization :: "string option"
  x_provider :: "string option"
  x_mode :: "string option"

text \<open>\<open>String.prototype.replace\<close> with a string pattern: the first occurrence only.\<close>

fun replace_first :: "string \<Rightarrow> string \<Rightarrow> string \<Rightarrow> string" where
  "replace_first pat rep [] = (if pat = [] then rep else [])"
| "replace_first pat rep (c # cs) =
     (case strip_prefix pat (c # cs) of
        Some r \<Rightarrow> rep @ r
      | None \<Rightarrow> c # replace_first pat rep cs)"

definition request_apiKey :: "request \<Rightarrow> string option" where
  "request_apiKey req =
     (if truthy (x_api_key req) then x_api_key req
      else map_option (replace_first ''Bearer '' []) (authorization req))"

record result_data =
  r_videoId :: string
  r_title :: string
  r_channel :: string
  r_duration :: int
  r_text :: string
  r_language :: string
  r_segments :: "segment list"
  r_mode :: string
  r_provider :: string

datatype event = Info string | Error string | Complete result_data

text \<open>What the handler does, in order: events written to the stream, the end of the
  stream, calls of the external tools, and calls of \<open>cleanup\<close>.\<close>

datatype act =
  Emit event
| End
| GetVideoInfo string
| DownloadAudio string string
| TranscribeLocal string
| TranscribeDeepgram string
| TranscribeAPI string
| Cleanup string

text \<open>The \<open>try\<close> block: the actions performed, the value of \<open>audioPath\<close> when the block
  is left, and the message of the error thrown, if one was.\<close>

definition transcribe_stage ::
  "world \<Rightarrow> string \<Rightarrow> string \<Rightarrow> string option \<Rightarrow> string \<Rightarrow> string
     \<Rightarrow> act list \<times> (string + transcription)" where
  "transcribe_stage w mode provider apiKey language actualPath =
     (if mode = ''local'' then
        ([Emit (Info ''Transcribing with local Whisper...''), TranscribeLocal actualPath],
         transcribeLocal (whisper w) (TEMP_DIR w) (LOCAL_WHISPER_MODEL w) actualPath
           (Some language))
      else if provider = ''deepgram'' then
        ([Emit (Info ''Transcribing with Deepgram API...''), TranscribeDeepgram actualPath],
         transcribeDeepgram (deepgram_post w) actualPath apiKey (Some language))
      else
        ([Emit (Info ''Transcribing with OpenAI Whisper...''), TranscribeAPI actualPath],
         transcribeAPI (openai_post w) actualPath apiKey (Some language)))"

definition download_stage ::
  "world \<Rightarrow> string set \<Rightarrow> string \<Rightarrow> string \<Rightarrow> string option \<Rightarrow> string \<Rightarrow> string \<Rightarrow> string
     \<Rightarrow> videoInfo \<Rightarrow> act list \<times> string option \<times> string option" where
  "download_stage w fs mode provider apiKey language url videoId videoInfo =
     (let audioPath = join (TEMP_DIR w) (randomUUID w);
          acts1 = [Emit (Info ''Downloading audio from YouTube...''), DownloadAudio url audioPath]
      in case downloadAudio (ytdlp_audio w) fs url audioPath of
           Inl m \<Rightarrow> (acts1, Some audioPath, Some m)
         | Inr actualPath \<Rightarrow>
             (let st = transcribe_stage w mode provider apiKey language actualPath
              in case snd st of
                   Inl m \<Rightarrow> (acts1 @ fst st, Some audioPath, Some m)
                 | Inr t \<Rightarrow>
                     (acts1 @ fst st @
                      [Emit (Info ''Finalizing...''),
                       Emit (Complete
                         \<lparr>r_videoId = videoId, r_title = vi_title videoInfo,
                          r_channel = vi_channel videoInfo, r_duration = vi_duration videoInfo,
                          r_text = tr_text t, r_language = tr_language t,
                          r_segments = tr_segments t, r_mode = mode, r_provider = provider\<rparr>),
                       End],
                      Some audioPath, None)))"

definition try_block ::
  "world \<Rightarrow> string set \<Rightarrow> request \<Rightarrow> act list \<times> string option \<times> string option" where
  "try_block w fs req =
     (let language = (case body_language req of None \<Rightarrow> ''auto'' | Some l \<Rightarrow> l);
          apiKey = request_apiKey req;
          provider = or_else (x_provider req) ''openai'';
          mode = or_else (x_mode req) (TRANSCRIPTION_MODE w)
      in case body_url req of
           None \<Rightarrow> ([Emit (Error ''URL is required''), End], None, None)
         | Some url \<Rightarrow>
             if url = [] then ([Emit (Error ''URL is required''), End], None, None)
             else if mode = ''api'' \<and> \<not> truthy apiKey \<and> provider \<noteq> ''local'' then
               ([Emit (Error (''API key required for '' @ provider @ '' mode.'')), End],
                None, None)
             else
               (case extractVideoId url of
                  None \<Rightarrow> ([Emit (Error ''Invalid YouTube URL''), End], None, None)
                | Some videoId \<Rightarrow>
                    (let acts0 = [Emit (Info ''Fetching video info...''), GetVideoInfo url]
                     in case getVideoInfo (ytdlp_json w) url of
                          Inl m \<Rightarrow> (acts0, None, Some m)
                        | Inr videoInfo \<Rightarrow>
                            if vi_duration videoInfo > MAX_DURATION_SECONDS then
                              (acts0 @
                               [Emit (Error (''Video too long. Maximum duration is ''
                                  @ dec (nat (MAX_DURATION_SECONDS div 3600)) @ '' hours.'')),
                                End],
                               None, None)
                            else if vi_isLive videoInfo then
                              (acts0 @ [Emit (Error ''Cannot transcribe live streams.''), End],
                               None, None)
                            else
                              (let d = download_stage w fs mode provider apiKey language url
                                         videoId videoInfo
                               in (acts0 @ fst d, snd d)))))"

text \<open>The \<open>catch\<close> block rewrites the message and emits the error event.\<close>

definition catch_block :: "string \<Rightarrow> act list" where
  "catch_block m =
     [Emit (Error (if str_includes m ''API key'' \<or> str_includes m ''quota''
                   then ''API Authentication Failed: '' @ m else m)),
      End]"

record outcome =
  acts :: "act list"
  audioPath :: "string option"
  files :: "string set"

text \<open>The whole handler: \<open>try\<close>, \<open>catch\<close>, \<open>finally\<close>. \<open>fs\<close> is the set of paths that exist
  once the external tools have run; \<open>files\<close> of the outcome is that set once the unlinks
  requested by \<open>cleanup\<close> have completed.\<close>

definition transcribe_handler :: "world \<Rightarrow> string set \<Rightarrow> request \<Rightarrow> outcome" where
  "transcribe_handler w fs req =
     (let t = try_block w fs req;
          acts1 = fst t @ (case snd (snd t) of None \<Rightarrow> [] | Some m \<Rightarrow> catch_block m)
      in case fst (snd t) of
           None \<Rightarrow> \<lparr>acts = acts1, audioPath = None, files = fs\<rparr>
         | Some p \<Rightarrow>
             if p \<noteq> [] then
               \<lparr>acts = acts1 @ [Cleanup p, Cleanup (p @ ''.mp3'')],
                audioPath = Some p,
                files = cleanup (unlink_fails w) (cleanup (unlink_fails w) fs p) (p @ ''.mp3'')\<rparr>
             else \<lparr>acts = acts1, audioPath = Some p, files = fs\<rparr>)"

text \<open>The events written to the stream, in order.\<close>

fun emitted :: "act list \<Rightarrow> event list" where
  "emitted [] = []"
| "emitted (Emit e # as) = e # emitted as"
| "emitted (a # as) = emitted as"

fun is_terminal :: "event \<Rightarrow> bool" where
  "is_terminal (Info m) = False"
| "is_terminal (Error m) = True"
| "is_terminal (Complete d) = True"

fun is_download :: "act \<Rightarrow> bool" where
  "is_download (DownloadAudio u p) = True"
| "is_download a = False"

text \<open>An action that neither writes a terminal event nor ends the stream.\<close>

fun quiet_act :: "act \<Rightarrow> bool" where
  "quiet_act (Emit e) = (\<not> is_terminal e)"
| "quiet_act End = False"
| "quiet_act a = True"

text \<open>A finished stream: quiet actions, then one terminal event, then the end of the
  stream, and nothing after it.\<close>

fun finished :: "act list \<Rightarrow> bool" where
  "finished [] = False"
| "finished (a # as) =
     (if as = [End] then (case a of Emit e \<Rightarrow> is_terminal e | _ \<Rightarrow> False)
      else quiet_act a \<and> finished as)"

section \<open>The /estimate-cost handler (server.js)\<close>

text \<open>\<open>Number.prototype.toFixed(4)\<close> on a rational (of magnitude below \<open>10^21\<close>): the
  nearest multiple of 1/10000 (the larger one at a tie), at least one digit before the
  point, a minus sign for a negative argument. The cost, minutes times 0.006, is a whole
  number of ten-thousandths, so the rounding never has a tie to break.\<close>

definition toFixed4 :: "rat \<Rightarrow> string" where
  "toFixed4 x =
     (let n = nat (floor (\<bar>x\<bar> * 10000 + 1 / 2));
          m = dec n;
          m' = replicate (5 - length m) CHR ''0'' @ m;
          k = length m' - 4
      in (if x < 0 then ''-'' else []) @ take k m' @ ''.'' @ drop k m')"

record estimate_data =
  e_duration :: int
  e_minutes :: int
  e_cost :: string
  e_formattedCost :: string
  e_mode :: string

datatype estimate_response = Json400 string | Json500 string | Json200 estimate_data

text \<open>
  The handler computes \<open>Math.ceil(info.duration / 60)\<close>, \<open>minutes * 0.006\<close> and
  \<open>toFixed(4)\<close> in double precision; the model computes them exactly. For a duration of
  magnitude at most \<open>10^12\<close> seconds the two agree in every printed digit: the quotient
  is below \<open>1.7 * 10^10\<close> in magnitude, so its rounding error (below \<open>2 * 10^-6\<close>) cannot
  carry it across an integer, from which an inexact quotient is at least \<open>1/60\<close> away;
  and the product is below \<open>1.1 * 10^8\<close>, so its rounding error (below \<open>3 * 10^-8\<close>) is far less
  than the half of \<open>10^-4\<close> that would change the fourth decimal. Beyond that magnitude
  double precision takes over and the model gives no answer (\<open>None\<close>).
\<close>

definition EXACT_DURATION_RANGE :: int where
  "EXACT_DURATION_RANGE = 10 ^ 12"

definition estimate_cost :: "world \<Rightarrow> string option \<Rightarrow> estimate_response option" where
  "estimate_cost w url =
     (if \<not> truthy url then Some (Json400 ''URL is required'')
      else case getVideoInfo (ytdlp_json w) (or_else url []) of
             Inl m \<Rightarrow> Some (Json500 m)
           | Inr info \<Rightarrow>
               if \<bar>vi_duration info\<bar> > EXACT_DURATION_RANGE then None
               else
                 (let minutes = ceiling (of_int (vi_duration info) / 60 :: rat)
                  in if TRANSCRIPTION_MODE w = ''local'' then
                       Some (Json200
                         \<lparr>e_duration = vi_duration info, e_minutes = minutes,
                          e_cost = ''0.00'', e_formattedCost = ''FREE (local mode)'',
                          e_mode = ''local''\<rparr>)
                     else
                       (let cost = of_int minutes * (6 / 1000 :: rat)
                        in Some (Json200
                             \<lparr>e_duration = vi_duration info, e_minutes = minutes,
                              e_cost = toFixed4 cost,
                              e_formattedCost = ''$'' @ toFixed4 cost,
                              e_mode = ''api''\<rparr>))))"

section \<open>The transcription cache of the extension (sidepanel.js)\<close>












section \<open>Auxiliary notions for the proofs\<close>


text \<open>The calls of \<open>cleanup\<close> that the \<open>finally\<close> block of an outcome made.\<close>

definition cleanup_acts :: "outcome \<Rightarrow> act list" where
  "cleanup_acts out =
     (case audioPath out of None \<Rightarrow> [] | Some p \<Rightarrow> [Cleanup p, Cleanup (p @ ''.mp3'')])"

section \<open>Concrete requests, worlds and caches\<close>

text \<open>A world in which every external tool succeeds: the metadata lookup reports the
  given duration and live flag, the downloader leaves its file at the output path with
  \<open>.mp3\<close> appended, and \<open>unlink\<close> fails exactly when \<open>uf\<close> says so.\<close>

definition example_info :: "int \<Rightarrow> bool \<Rightarrow> videoInfo" where
  "example_info d live =
     \<lparr>vi_id = ''dQw4w9WgXcQ'', vi_title = ''Title'', vi_duration = d, vi_channel = ''Channel'',
      vi_thumbnail = [], vi_isLive = live\<rparr>"

definition example_world :: "string option \<Rightarrow> int \<Rightarrow> bool \<Rightarrow> bool \<Rightarrow> world" where
  "example_world wmode d live uf =
     \<lparr>WHISPER_MODE = wmode, WHISPER_MODEL = None, tmpdir = ''/tmp'',
      ytdlp_json = (\<lambda>u. Closed 0 [] (Some (example_info d live))),
      ytdlp_audio = (\<lambda>u p. Closed 0 [] ()),
      randomUUID = ''0b5e'',
      whisper = (\<lambda>args. Closed 0 []
                   (Parsed \<lparr>wj_text = Some ''hello'', wj_language = Some ''en'',
                            wj_segments = None\<rparr>)),
      openai_post = (\<lambda>f a. OpenAI_NotOk 401 (Some ''Incorrect API key provided'')),
      deepgram_post = (\<lambda>u a p. Deepgram_NotOk 402 None None),
      unlink_fails = (\<lambda>p. uf)\<rparr>"

definition example_url :: string where
  "example_url = ''https://www.youtube.com/watch?v=dQw4w9WgXcQ''"

definition example_request :: request where
  "example_request =
     \<lparr>body_url = Some example_url, body_language = None, x_api_key = None,
      authorization = None, x_provider = None, x_mode = None\<rparr>"

definition example_files :: "string set" where
  "example_files = {''/tmp/yt-transcriber/0b5e.mp3''}"




definition example_word :: "rat \<Rightarrow> string \<Rightarrow> dg_word" where
  "example_word s w = \<lparr>w_start = s, w_punctuated_word = Some w, w_word = w\<rparr>"

section \<open>Properties of the video identifier extraction\<close>

lemma match_id_Some: "match_id s = Some i \<Longrightarrow> length i = 11 \<and> list_all is_id_char i"
  by (auto simp: match_id_def split: if_splits)

lemma dot_star_v_Some: "dot_star_v s k = Some i \<Longrightarrow> length i = 11 \<and> list_all is_id_char i"
  by (induction k) (auto simp: after_dot_star_def dest: match_id_Some split: option.splits)

lemma match_here_Some: "match_here s = Some i \<Longrightarrow> length i = 11 \<and> list_all is_id_char i"
  by (auto simp: match_here_def alt_watch_def alt_literal_def
      dest: match_id_Some dot_star_v_Some split: option.splits)

lemma regex_search_Some: "regex_search s = Some i \<Longrightarrow> length i = 11 \<and> list_all is_id_char i"
  by (induction s) (auto dest: match_here_Some split: option.splits)

lemma match_id_append:
  "length ident = 11 \<Longrightarrow> list_all is_id_char ident \<Longrightarrow> match_id (ident @ rest) = Some ident"
  by (simp add: match_id_def)

text \<open>No \<open>v=\<close> starts inside a run of identifier characters, so the greedy \<open>.*\<close> has to
  give back all it consumed.\<close>

lemma strip_v_id_chars: "list_all is_id_char t \<Longrightarrow> strip_prefix ''v='' t = None"
  by (cases t; cases "tl t") (auto simp: is_id_char_def)

lemma after_dot_star_later:
  assumes "list_all is_id_char t"
  shows "after_dot_star (''v='' @ t) (Suc k) = None"
proof (cases k)
  case 0
  then show ?thesis by (simp add: after_dot_star_def)
next
  case (Suc j)
  have "list_all is_id_char (drop j t)"
    using assms by (simp add: list_all_iff) (meson in_set_dropD)
  then show ?thesis
    using Suc by (simp add: after_dot_star_def strip_v_id_chars)
qed

lemma dot_star_v_first:
  assumes "list_all is_id_char t"
  shows "dot_star_v (''v='' @ t) k = match_id t"
proof (induction k)
  case 0
  show ?case by (simp add: after_dot_star_def)
next
  case (Suc k)
  then show ?case using after_dot_star_later [OF assms, of k] by simp
qed

lemma extract_watch:
  assumes "length ident = 11" "list_all is_id_char ident" "list_all is_id_char rest"
  shows "extractVideoId (''https://www.youtube.com/watch?v='' @ ident @ rest) = Some ident"
proof -
  have "list_all is_id_char (ident @ rest)" using assms by simp
  from dot_star_v_first [OF this] assms(1,2) show ?thesis
    by (simp add: extractVideoId_def match_here_def alt_watch_def alt_literal_def match_id_append)
      auto
qed

lemma extract_short_link:
  assumes "length ident = 11" "list_all is_id_char ident"
  shows "extractVideoId (''https://youtu.be/'' @ ident @ rest) = Some ident"
  using assms
  by (simp add: extractVideoId_def match_here_def alt_watch_def alt_literal_def match_id_append)
    auto

lemma extract_embed:
  assumes "length ident = 11" "list_all is_id_char ident"
  shows "extractVideoId (''https://www.youtube.com/embed/'' @ ident @ rest) = Some ident"
  using assms
  by (simp add: extractVideoId_def match_here_def alt_watch_def alt_literal_def match_id_append)
    auto

lemma extract_shorts:
  assumes "length ident = 11" "list_all is_id_char ident"
  shows "extractVideoId (''https://www.youtube.com/shorts/'' @ ident @ rest) = Some ident"
  using assms
  by (simp add: extractVideoId_def match_here_def alt_watch_def alt_literal_def match_id_append)
    auto

lemma extractVideoId_Some:
  "extractVideoId url = Some i \<Longrightarrow> length i = 11 \<and> list_all is_id_char i"
  by (auto simp: extractVideoId_def dest: regex_search_Some split: option.splits if_splits)

text \<open>
  Claim C9. The identifier extractor of the server (\<open>extractVideoId\<close>) and the one of the
  extension (\<open>extractVideoIdFromUrl\<close>, the same behind a guard against a missing URL)
  return either \<open>null\<close> or a string of exactly 11 characters drawn from \<open>[A-Za-z0-9_-]\<close>.
  The pattern is not anchored after the identifier: when a recognized prefix is followed
  by 11 identifier characters \<open>ident\<close> and then by further identifier characters
  \<open>rest\<close>, the URL is not rejected and \<open>ident\<close>, the first 11 of them, is returned.
\<close>

theorem extractVideoId_eleven_unanchored:
  "(extractVideoId url = None
      \<or> (\<exists>i. extractVideoId url = Some i \<and> length i = 11 \<and> list_all is_id_char i))
   \<and> extractVideoIdFromUrl (Some url) = extractVideoId url
   \<and> extractVideoIdFromUrl None = None
   \<and> (length ident = 11 \<and> list_all is_id_char ident \<and> list_all is_id_char rest \<longrightarrow>
        extractVideoId (''https://www.youtube.com/watch?v='' @ ident @ rest) = Some ident
        \<and> extractVideoId (''https://youtu.be/'' @ ident @ rest) = Some ident
        \<and> extractVideoId (''https://www.youtube.com/embed/'' @ ident @ rest) = Some ident
        \<and> extractVideoId (''https://www.youtube.com/shorts/'' @ ident @ rest) = Some ident)"
proof -
  have 1: "extractVideoId url = None
      \<or> (\<exists>i. extractVideoId url = Some i \<and> length i = 11 \<and> list_all is_id_char i)"
    using extractVideoId_Some [of url] by (cases "extractVideoId url") auto
  have "extractVideoId [] = None"
    by (simp add: extractVideoId_def match_here_def alt_watch_def alt_literal_def)
  then have 2: "extractVideoIdFromUrl (Some url) = extractVideoId url"
    by (simp add: extractVideoIdFromUrl_def extractVideoId_def)
  have 3: "extractVideoIdFromUrl None = None"
    by (simp add: extractVideoIdFromUrl_def)
  from 1 2 3 extract_watch extract_short_link extract_embed extract_shorts
  show ?thesis by blast
qed

theorem extractVideoId_eleven_unanchored_witness:
  "length ''dQw4w9WgXcQ'' = 11 \<and> list_all is_id_char ''dQw4w9WgXcQ''
   \<and> list_all is_id_char ''ABC''
   \<and> extractVideoId ''https://www.youtube.com/watch?v=dQw4w9WgXcQABC'' = Some ''dQw4w9WgXcQ''
   \<and> extractVideoId ''https://youtu.be/dQw4w9WgXcQABC'' = Some ''dQw4w9WgXcQ''
   \<and> extractVideoId ''https://www.youtube.com/embed/dQw4w9WgXcQABC'' = Some ''dQw4w9WgXcQ''
   \<and> extractVideoId ''https://www.youtube.com/shorts/dQw4w9WgXcQABC'' = Some ''dQw4w9WgXcQ''"
proof -
  have h: "length ''dQw4w9WgXcQ'' = 11 \<and> list_all is_id_char ''dQw4w9WgXcQ''
           \<and> list_all is_id_char ''ABC''"
    by (simp add: is_id_char_def)
  from extractVideoId_eleven_unanchored [of "[]" "''dQw4w9WgXcQ''" "''ABC''"] h
  show ?thesis by simp
qed

section \<open>Properties of the Deepgram backend\<close>

text \<open>
  Claim C2. For a Deepgram response whose words start at 0, 2, 4.9, 5.0, 7 and 12.1
  seconds, the segment synthesis yields exactly three segments: [0,5) with the words at
  0, 2 and 4.9, [5,10) with the words at 5.0 and 7, and [10,15) with the word at 12.1.
  The text of a segment is its words joined by single spaces, in order, and the word
  that starts exactly on the boundary 5.0 opens the second segment. The words are any
  non-empty strings \<open>a\<close> to \<open>f\<close>.
\<close>

theorem deepgram_segments_example:
  assumes "a \<noteq> []" "b \<noteq> []" "c \<noteq> []" "d \<noteq> []" "e \<noteq> []" "f \<noteq> []"
  shows "deepgram_segments
           \<lparr>transcript = t,
            dg_words = Some [example_word 0 a, example_word 2 b, example_word (49 / 10) c,
                             example_word 5 d, example_word 7 e, example_word (121 / 10) f]\<rparr>
         = [\<lparr>seg_start = 0, seg_end = 5, seg_text = a @ '' '' @ b @ '' '' @ c\<rparr>,
            \<lparr>seg_start = 5, seg_end = 10, seg_text = d @ '' '' @ e\<rparr>,
            \<lparr>seg_start = 10, seg_end = 15, seg_text = f\<rparr>]"
proof -
  have fl: "\<lfloor>121 / 50 :: rat\<rfloor> = 2" by (simp add: floor_eq_iff)
  show ?thesis
    using assms fl
    by (simp add: deepgram_segments_def add_word_def example_word_def SEGMENT_DURATION_def
        or_else_def Let_def)
qed

theorem deepgram_segments_example_witness:
  "deepgram_segments
     \<lparr>transcript = ''So we begin. Now then, next.'',
      dg_words = Some [example_word 0 ''So'', example_word 2 ''we'',
                       example_word (49 / 10) ''begin.'', example_word 5 ''Now'',
                       example_word 7 ''then,'', example_word (121 / 10) ''next.'']\<rparr>
   = [\<lparr>seg_start = 0, seg_end = 5, seg_text = ''So we begin.''\<rparr>,
      \<lparr>seg_start = 5, seg_end = 10, seg_text = ''Now then,''\<rparr>,
      \<lparr>seg_start = 10, seg_end = 15, seg_text = ''next.''\<rparr>]"
  using deepgram_segments_example
    [of "''So''" "''we''" "''begin.''" "''Now''" "''then,''" "''next.''"
        "''So we begin. Now then, next.''"]
  by simp

text \<open>
  Claim C5. In the Deepgram backend the model is chosen by the allow-list: a requested
  language code in the Nova-2 allow-list selects \<open>nova-2\<close>; a requested code other than
  \<open>auto\<close> that is not in the allow-list selects \<open>whisper-large\<close>; an absent language and
  the language \<open>auto\<close> select \<open>nova-2\<close>. A requested code is a non-empty string: the
  empty string is falsy and counts as absent.
\<close>

theorem deepgram_model_by_allow_list:
  "(l1 \<in> set DEEPGRAM_NOVA2_LANGUAGES \<longrightarrow> deepgram_model (Some l1) = ''nova-2'')
   \<and> (l2 \<noteq> [] \<and> l2 \<noteq> ''auto'' \<and> l2 \<notin> set DEEPGRAM_NOVA2_LANGUAGES \<longrightarrow>
        deepgram_model (Some l2) = ''whisper-large'')
   \<and> deepgram_model None = ''nova-2''
   \<and> deepgram_model (Some ''auto'') = ''nova-2''
   \<and> deepgram_model (Some []) = ''nova-2''"
  by (simp add: deepgram_model_def useWhisper_def)

theorem deepgram_model_by_allow_list_witness:
  "''pt-BR'' \<in> set DEEPGRAM_NOVA2_LANGUAGES \<and> deepgram_model (Some ''pt-BR'') = ''nova-2''
   \<and> ''ur'' \<noteq> [] \<and> ''ur'' \<noteq> ''auto'' \<and> ''ur'' \<notin> set DEEPGRAM_NOVA2_LANGUAGES
   \<and> deepgram_model (Some ''ur'') = ''whisper-large''"
proof -
  have h1: "''pt-BR'' \<in> set DEEPGRAM_NOVA2_LANGUAGES"
    by (simp add: DEEPGRAM_NOVA2_LANGUAGES_def)
  have h2: "''ur'' \<noteq> [] \<and> ''ur'' \<noteq> ''auto'' \<and> ''ur'' \<notin> set DEEPGRAM_NOVA2_LANGUAGES"
    by (simp add: DEEPGRAM_NOVA2_LANGUAGES_def)
  from deepgram_model_by_allow_list [of "''pt-BR''" "''ur''"] h1 h2
  show ?thesis by simp
qed

section \<open>The language hint in the three backends\<close>



section \<open>Properties of the transcription cache\<close>





















section \<open>Properties of the /transcribe handler\<close>

lemma emitted_append: "emitted (xs @ ys) = emitted xs @ emitted ys"
  by (induction xs rule: emitted.induct) auto

lemma not_finished_End: "\<not> finished [End]"
  by simp

lemma finished_append:
  "list_all quiet_act pre \<Longrightarrow> finished (pre @ as) = finished as"
proof (induction pre)
  case Nil
  then show ?case by simp
next
  case (Cons a pre)
  then have q: "quiet_act a" and IH: "finished (pre @ as) = finished as" by auto
  show ?case
  proof (cases "pre @ as = [End]")
    case True
    then have "\<not> finished as" using IH by simp
    moreover have "\<not> (case a of Emit e \<Rightarrow> is_terminal e | _ \<Rightarrow> False)"
      using q by (cases a) auto
    ultimately show ?thesis using True by simp
  next
    case False
    then show ?thesis using q IH by simp
  qed
qed

lemma finished_terminal: "is_terminal t \<Longrightarrow> finished [Emit t, End]"
  by simp

lemma finished_quiet_terminal:
  "list_all quiet_act pre \<Longrightarrow> is_terminal t \<Longrightarrow> finished (pre @ [Emit t, End])"
  by (simp add: finished_append)

lemma finished_shape:
  "finished as \<Longrightarrow> \<exists>pre t. as = pre @ [Emit t, End] \<and> list_all quiet_act pre \<and> is_terminal t"
proof (induction as)
  case Nil
  then show ?case by simp
next
  case (Cons a as)
  show ?case
  proof (cases "as = [End]")
    case True
    with Cons.prems obtain e where "a = Emit e" "is_terminal e" by (cases a) auto
    with True have "a # as = [] @ [Emit e, End] \<and> list_all quiet_act [] \<and> is_terminal e" by simp
    then show ?thesis by blast
  next
    case False
    with Cons.prems have q: "quiet_act a" and f: "finished as" by auto
    from Cons.IH [OF f] obtain pre t where "as = pre @ [Emit t, End]" "list_all quiet_act pre" "is_terminal t"
      by blast
    with q have "a # as = (a # pre) @ [Emit t, End] \<and> list_all quiet_act (a # pre) \<and> is_terminal t" by simp
    then show ?thesis by blast
  qed
qed

lemma quiet_emitted: "list_all quiet_act pre \<Longrightarrow> filter is_terminal (emitted pre) = []"
  by (induction pre rule: emitted.induct) auto

lemma quiet_no_End: "list_all quiet_act pre \<Longrightarrow> End \<notin> set pre"
  by (induction pre) auto

lemma transcribe_stage_quiet:
  "list_all quiet_act (fst (transcribe_stage w mode provider apiKey language p))"
  by (simp add: transcribe_stage_def)

lemma download_stage_shape:
  assumes "download_stage w fs mode provider apiKey language url videoId info = (as, ap, thrown)"
  shows "ap = Some (join (TEMP_DIR w) (randomUUID w))
       \<and> (if thrown = None then finished as else list_all quiet_act as)"
proof (cases "downloadAudio (ytdlp_audio w) fs url (join (TEMP_DIR w) (randomUUID w))")
  case (Inl m)
  then show ?thesis using assms by (auto simp: download_stage_def Let_def)
next
  case (Inr actualPath)
  let ?st = "transcribe_stage w mode provider apiKey language actualPath"
  let ?pre = "[Emit (Info ''Downloading audio from YouTube...''),
               DownloadAudio url (join (TEMP_DIR w) (randomUUID w))] @ fst ?st"
  have q: "list_all quiet_act ?pre" using transcribe_stage_quiet [of w mode provider apiKey language actualPath]
    by simp
  show ?thesis
  proof (cases "snd ?st")
    case (Inl m)
    then show ?thesis using assms Inr q by (auto simp: download_stage_def Let_def)
  next
    case r: (Inr t)
    let ?done = "[Emit (Info ''Finalizing...''),
                       Emit (Complete
                         \<lparr>r_videoId = videoId, r_title = vi_title info,
                          r_channel = vi_channel info, r_duration = vi_duration info,
                          r_text = tr_text t, r_language = tr_language t,
                          r_segments = tr_segments t, r_mode = mode, r_provider = provider\<rparr>),
                       End]"
    have "finished (?pre @ ?done) = finished ?done" by (rule finished_append [OF q])
    then have "finished (?pre @ ?done)" by simp
    moreover have "as = ?pre @ ?done" "ap = Some (join (TEMP_DIR w) (randomUUID w))" "thrown = None"
      using assms Inr r by (auto simp: download_stage_def Let_def)
    ultimately show ?thesis by simp
  qed
qed

lemma try_block_shape:
  assumes "try_block w fs req = (as, ap, thrown)"
  shows "(ap = None \<or> ap = Some (join (TEMP_DIR w) (randomUUID w)))
       \<and> (if thrown = None then finished as else list_all quiet_act as)"
proof (cases "body_url req")
  case None
  then show ?thesis using assms by (auto simp: try_block_def Let_def)
next
  case (Some url)
  let ?mode = "or_else (x_mode req) (TRANSCRIPTION_MODE w)"
  let ?provider = "or_else (x_provider req) ''openai''"
  show ?thesis
  proof (cases "url = [] \<or> (?mode = ''api'' \<and> \<not> truthy (request_apiKey req) \<and> ?provider \<noteq> ''local'')")
    case True
    then show ?thesis using assms Some by (auto simp: try_block_def Let_def split: if_splits)
  next
    case valid: False
    show ?thesis
    proof (cases "extractVideoId url")
      case None
      then show ?thesis using assms Some valid by (auto simp: try_block_def Let_def)
    next
      case vid: (Some videoId)
      show ?thesis
      proof (cases "getVideoInfo (ytdlp_json w) url")
        case (Inl m)
        then show ?thesis using assms Some valid vid by (auto simp: try_block_def Let_def)
      next
        case (Inr info)
        show ?thesis
        proof (cases "vi_duration info > MAX_DURATION_SECONDS \<or> vi_isLive info")
          case True
          then show ?thesis using assms Some valid vid Inr
            by (auto simp: try_block_def Let_def split: if_splits)
        next
          case False
          obtain as' ap' thrown' where d: "download_stage w fs ?mode ?provider (request_apiKey req)
             (case body_language req of None \<Rightarrow> ''auto'' | Some l \<Rightarrow> l) url videoId info = (as', ap', thrown')"
            using prod_cases3 by blast
          from download_stage_shape [OF d] have sh: "ap' = Some (join (TEMP_DIR w) (randomUUID w))"
            "if thrown' = None then finished as' else list_all quiet_act as'" by auto
          let ?pre = "[Emit (Info ''Fetching video info...''), GetVideoInfo url]"
          have pre: "list_all quiet_act ?pre" by simp
          have f: "finished (?pre @ as') = finished as'"
            by (rule finished_append [OF pre])
          have eq: "as = ?pre @ as'" "ap = ap'" "thrown = thrown'"
            using assms Some valid vid Inr False d by (auto simp: try_block_def Let_def)
          show ?thesis
          proof (cases "thrown' = None")
            case True
            then show ?thesis using sh f eq by simp
          next
            case False
            then show ?thesis using sh eq by simp
          qed
        qed
      qed
    qed
  qed
qed

lemma catch_block_finished: "list_all quiet_act as \<Longrightarrow> finished (as @ catch_block m)"
  by (simp add: finished_append catch_block_def)

lemma join_nonempty: "join a b \<noteq> []"
  by (simp add: join_def)

lemma handler_shape:
  "\<exists>as. finished as \<and> acts (transcribe_handler w fs req) = as @ cleanup_acts (transcribe_handler w fs req)"
proof -
  obtain as ap thrown where t: "try_block w fs req = (as, ap, thrown)" using prod_cases3 by blast
  from try_block_shape [OF t] have ap: "ap = None \<or> ap = Some (join (TEMP_DIR w) (randomUUID w))"
    and sh: "if thrown = None then finished as else list_all quiet_act as" by auto
  let ?as1 = "as @ (case thrown of None \<Rightarrow> [] | Some m \<Rightarrow> catch_block m)"
  have f: "finished ?as1"
    using sh catch_block_finished by (cases thrown) auto
  have "acts (transcribe_handler w fs req) = ?as1 @ cleanup_acts (transcribe_handler w fs req)"
    using ap t join_nonempty by (auto simp: transcribe_handler_def cleanup_acts_def Let_def)
  with f show ?thesis by blast
qed

lemma cleanup_acts_emitted:
  "emitted (cleanup_acts out) = []" "End \<notin> set (cleanup_acts out)"
  by (auto simp: cleanup_acts_def split: option.splits)

lemma handler_audioPath:
  "audioPath (transcribe_handler w fs req) = None
   \<or> audioPath (transcribe_handler w fs req) = Some (join (TEMP_DIR w) (randomUUID w))"
proof -
  obtain as ap thrown where t: "try_block w fs req = (as, ap, thrown)" using prod_cases3 by blast
  from try_block_shape [OF t] have "ap = None \<or> ap = Some (join (TEMP_DIR w) (randomUUID w))"
    by auto
  then show ?thesis using t by (auto simp: transcribe_handler_def Let_def join_nonempty)
qed

lemma cleanup_twice:
  "p \<noteq> [] \<Longrightarrow> cleanup uf (cleanup uf fs p) (p @ ''.mp3'')
     = fs - {q. (q = p \<or> q = p @ ''.mp3'') \<and> \<not> uf q}"
  by (auto simp: cleanup_def)

lemma dec_hours: "dec (nat (MAX_DURATION_SECONDS div 3600)) = ''3''"
  by (simp add: MAX_DURATION_SECONDS_def dec.simps digit_char_def)

lemma example_lookup:
  "getVideoInfo (ytdlp_json (example_world wm d live uf)) example_url
     = Inr (example_info d live)"
  by (simp add: getVideoInfo_def example_world_def)

text \<open>
  Claim C4. Every execution of the /transcribe handler writes exactly one terminal event
  (an error event or a complete event, never both); the terminal event is the last
  event written; the stream is ended, and no event is written after the end of the
  stream. In particular no result payload follows an error event.
\<close>

theorem handler_one_terminal_event:
  "length (filter is_terminal (emitted (acts (transcribe_handler w fs req)))) = 1
   \<and> is_terminal (last (emitted (acts (transcribe_handler w fs req))))
   \<and> End \<in> set (acts (transcribe_handler w fs req))
   \<and> emitted (dropWhile (\<lambda>a. a \<noteq> End) (acts (transcribe_handler w fs req))) = []"
proof -
  let ?out = "transcribe_handler w fs req"
  from handler_shape [of w fs req] obtain as
    where as: "finished as" "acts ?out = as @ cleanup_acts ?out"
    by blast
  from finished_shape [OF as(1)] obtain pre t where sh: "as = pre @ [Emit t, End]"
    "list_all quiet_act pre" "is_terminal t" by blast
  have ev: "emitted (acts ?out) = emitted pre @ [t]"
    by (simp add: as(2) sh(1) emitted_append cleanup_acts_emitted)
  have 1: "length (filter is_terminal (emitted (acts ?out))) = 1"
    by (simp add: ev quiet_emitted [OF sh(2)] sh(3))
  have 2: "is_terminal (last (emitted (acts ?out)))" by (simp add: ev sh(3))
  have 3: "End \<in> set (acts ?out)" by (simp add: as(2) sh(1))
  have "dropWhile (\<lambda>a. a \<noteq> End) (pre @ ([Emit t, End] @ cleanup_acts ?out))
        = dropWhile (\<lambda>a. a \<noteq> End) ([Emit t, End] @ cleanup_acts ?out)"
    by (rule dropWhile_append2) (use quiet_no_End [OF sh(2)] in auto)
  then have "dropWhile (\<lambda>a. a \<noteq> End) (acts ?out) = End # cleanup_acts ?out"
    by (simp add: as(2) sh(1))
  then have 4: "emitted (dropWhile (\<lambda>a. a \<noteq> End) (acts ?out)) = []"
    by (simp add: cleanup_acts_emitted)
  from 1 2 3 4 show ?thesis by simp
qed

theorem handler_one_terminal_event_witness:
  "emitted (acts (transcribe_handler (example_world (Some ''api'') 600 False False)
              example_files (example_request\<lparr>x_api_key := Some ''sk-0''\<rparr>)))
     = [Info ''Fetching video info...'', Info ''Downloading audio from YouTube...'',
        Info ''Transcribing with OpenAI Whisper...'',
        Error ''API Authentication Failed: Incorrect API key provided'']
   \<and> length (filter is_terminal
        (emitted (acts (transcribe_handler (example_world (Some ''api'') 600 False False)
           example_files (example_request\<lparr>x_api_key := Some ''sk-0''\<rparr>))))) = 1"
proof -
  have e: "emitted (acts (transcribe_handler (example_world (Some ''api'') 600 False False)
              example_files (example_request\<lparr>x_api_key := Some ''sk-0''\<rparr>)))
     = [Info ''Fetching video info...'', Info ''Downloading audio from YouTube...'',
        Info ''Transcribing with OpenAI Whisper...'',
        Error ''API Authentication Failed: Incorrect API key provided'']"
    by code_simp
  from handler_one_terminal_event
    [of "example_world (Some ''api'') 600 False False" example_files
        "example_request\<lparr>x_api_key := Some ''sk-0''\<rparr>"] e
  show ?thesis by blast
qed

text \<open>
  Claim C3. For every /transcribe request that passes validation and whose metadata
  lookup resolves, a duration above the ceiling of 10800 seconds or a live video makes
  the handler write a terminal error event and end the stream without invoking the
  audio download (no temp path is assigned and no file is touched); a duration of at
  most the ceiling, in particular exactly 10800, of a video that is not live proceeds to
  the download.
\<close>

theorem handler_limits_before_download:
  assumes "body_url req = Some url" "url \<noteq> []"
    and "or_else (x_mode req) (TRANSCRIPTION_MODE w) \<noteq> ''api'' \<or> truthy (request_apiKey req)
         \<or> or_else (x_provider req) ''openai'' = ''local''"
    and "extractVideoId url = Some videoId"
    and "getVideoInfo (ytdlp_json w) url = Inr info"
  shows "(vi_duration info > 10800 \<or> vi_isLive info \<longrightarrow>
           acts (transcribe_handler w fs req) =
             [Emit (Info ''Fetching video info...''), GetVideoInfo url,
              Emit (Error (if vi_duration info > 10800
                           then ''Video too long. Maximum duration is 3 hours.''
                           else ''Cannot transcribe live streams.'')),
              End]
           \<and> filter is_download (acts (transcribe_handler w fs req)) = []
           \<and> audioPath (transcribe_handler w fs req) = None
           \<and> files (transcribe_handler w fs req) = fs)
       \<and> (vi_duration info \<le> 10800 \<and> \<not> vi_isLive info \<longrightarrow>
           DownloadAudio url (join (TEMP_DIR w) (randomUUID w))
             \<in> set (acts (transcribe_handler w fs req)))"
proof -
  have A: "vi_duration info > 10800 \<or> vi_isLive info \<Longrightarrow>
      try_block w fs req = ([Emit (Info ''Fetching video info...''), GetVideoInfo url,
              Emit (Error (if vi_duration info > 10800
                           then ''Video too long. Maximum duration is 3 hours.''
                           else ''Cannot transcribe live streams.'')),
              End], None, None)"
    using assms
    by (auto simp: try_block_def Let_def dec_hours) (auto simp: MAX_DURATION_SECONDS_def)
  have B: "vi_duration info \<le> 10800 \<and> \<not> vi_isLive info \<Longrightarrow>
      DownloadAudio url (join (TEMP_DIR w) (randomUUID w)) \<in> set (fst (try_block w fs req))"
    using assms
    by (auto simp: try_block_def Let_def MAX_DURATION_SECONDS_def download_stage_def
        split: sum.splits)
  show ?thesis
  proof (intro conjI impI)
    assume h: "vi_duration info > 10800 \<or> vi_isLive info"
    note t = A [OF h]
    show "acts (transcribe_handler w fs req) =
             [Emit (Info ''Fetching video info...''), GetVideoInfo url,
              Emit (Error (if vi_duration info > 10800
                           then ''Video too long. Maximum duration is 3 hours.''
                           else ''Cannot transcribe live streams.'')),
              End]"
      by (simp add: transcribe_handler_def t)
    then show "filter is_download (acts (transcribe_handler w fs req)) = []" by simp
    show "audioPath (transcribe_handler w fs req) = None"
      by (simp add: transcribe_handler_def t)
    show "files (transcribe_handler w fs req) = fs" by (simp add: transcribe_handler_def t)
  next
    assume h: "vi_duration info \<le> 10800 \<and> \<not> vi_isLive info"
    from B [OF h] show "DownloadAudio url (join (TEMP_DIR w) (randomUUID w))
             \<in> set (acts (transcribe_handler w fs req))"
      by (auto simp: transcribe_handler_def Let_def split: option.splits)
  qed
qed

theorem handler_limits_before_download_witness:
  "body_url example_request = Some example_url \<and> example_url \<noteq> []
   \<and> extractVideoId example_url = Some ''dQw4w9WgXcQ''
   \<and> acts (transcribe_handler (example_world None 10801 False False) example_files
        example_request)
       = [Emit (Info ''Fetching video info...''), GetVideoInfo example_url,
          Emit (Error ''Video too long. Maximum duration is 3 hours.''), End]
   \<and> acts (transcribe_handler (example_world None 60 True False) example_files
        example_request)
       = [Emit (Info ''Fetching video info...''), GetVideoInfo example_url,
          Emit (Error ''Cannot transcribe live streams.''), End]
   \<and> DownloadAudio example_url ''/tmp/yt-transcriber/0b5e''
       \<in> set (acts (transcribe_handler (example_world None 10800 False False) example_files
                 example_request))"
proof -
  have h1: "body_url example_request = Some example_url" by (simp add: example_request_def)
  have h2: "example_url \<noteq> []" by (simp add: example_url_def)
  have h3: "\<And>d live. or_else (x_mode example_request)
                (TRANSCRIPTION_MODE (example_world None d live False)) \<noteq> ''api''
              \<or> truthy (request_apiKey example_request)
              \<or> or_else (x_provider example_request) ''openai'' = ''local''"
    by (simp add: example_request_def example_world_def TRANSCRIPTION_MODE_def or_else_def)
  have h4: "extractVideoId example_url = Some ''dQw4w9WgXcQ''" by code_simp
  have p: "join (TEMP_DIR (example_world None 10800 False False))
             (randomUUID (example_world None 10800 False False)) = ''/tmp/yt-transcriber/0b5e''"
    by (simp add: join_def TEMP_DIR_def example_world_def)
  have a: "acts (transcribe_handler (example_world None 10801 False False) example_files
        example_request)
       = [Emit (Info ''Fetching video info...''), GetVideoInfo example_url,
          Emit (Error ''Video too long. Maximum duration is 3 hours.''), End]"
    using handler_limits_before_download
      [where w = "example_world None 10801 False False" and fs = example_files
         and info = "example_info 10801 False", OF h1 h2 h3 h4 example_lookup] by (simp add: example_info_def)
  have b: "acts (transcribe_handler (example_world None 60 True False) example_files
        example_request)
       = [Emit (Info ''Fetching video info...''), GetVideoInfo example_url,
          Emit (Error ''Cannot transcribe live streams.''), End]"
    using handler_limits_before_download
      [where w = "example_world None 60 True False" and fs = example_files
         and info = "example_info 60 True", OF h1 h2 h3 h4 example_lookup] by (simp add: example_info_def)
  have c: "DownloadAudio example_url ''/tmp/yt-transcriber/0b5e''
       \<in> set (acts (transcribe_handler (example_world None 10800 False False) example_files
                 example_request))"
    using handler_limits_before_download
      [where w = "example_world None 10800 False False" and fs = example_files
         and info = "example_info 10800 False", OF h1 h2 h3 h4 example_lookup] p by (simp add: example_info_def)
  from h1 h2 h4 a b c show ?thesis by simp
qed

lemma try_block_download:
  "fst (snd (try_block w fs req)) = Some p \<Longrightarrow> list_ex is_download (fst (try_block w fs req))"
  by (auto simp: try_block_def download_stage_def Let_def split: option.splits if_splits sum.splits)

text \<open>
  Claim C1, as amended. For every request to /transcribe in which a temp audio path was
  assigned (the download was invoked), the handler calls \<open>cleanup\<close> on the temp audio path
  and on its \<open>.mp3\<close>-suffixed variant as its last two actions, on every exit path. Each
  of the two that exists is unlinked; once the unlinks have completed, the files that
  exist are those that existed before, less each of the two paths whose unlink did not
  fail. So a path whose unlink succeeds no longer exists, while a failed unlink is only
  logged and leaves the file in place.
\<close>

theorem handler_cleanup_on_every_exit:
  assumes "audioPath (transcribe_handler w fs req) = Some p"
  shows "list_ex is_download (acts (transcribe_handler w fs req))
       \<and> drop (length (acts (transcribe_handler w fs req)) - 2)
            (acts (transcribe_handler w fs req))
           = [Cleanup p, Cleanup (p @ ''.mp3'')]
       \<and> files (transcribe_handler w fs req)
           = fs - {q. (q = p \<or> q = p @ ''.mp3'') \<and> \<not> unlink_fails w q}
       \<and> (\<not> unlink_fails w p \<longrightarrow> p \<notin> files (transcribe_handler w fs req))
       \<and> (\<not> unlink_fails w (p @ ''.mp3'') \<longrightarrow>
            p @ ''.mp3'' \<notin> files (transcribe_handler w fs req))"
proof -
  let ?out = "transcribe_handler w fs req"
  have p: "p = join (TEMP_DIR w) (randomUUID w)"
    using handler_audioPath [of w fs req] assms by auto
  then have ne: "p \<noteq> []" by (simp add: join_nonempty)
  obtain as ap thrown where t: "try_block w fs req = (as, ap, thrown)" using prod_cases3 by blast
  have ap: "ap = Some p"
    using assms t by (auto simp: transcribe_handler_def Let_def split: option.splits if_splits)
  have d: "list_ex is_download as" using try_block_download [of w fs req p] t ap by simp
  have f: "files ?out = cleanup (unlink_fails w) (cleanup (unlink_fails w) fs p) (p @ ''.mp3'')"
    using t ap ne by (simp add: transcribe_handler_def Let_def)
  have a: "\<exists>as1. acts ?out = as @ as1 @ [Cleanup p, Cleanup (p @ ''.mp3'')]"
    using t ap ne by (simp add: transcribe_handler_def Let_def)
  then have 1: "drop (length (acts ?out) - 2) (acts ?out) = [Cleanup p, Cleanup (p @ ''.mp3'')]"
    by auto
  have 0: "list_ex is_download (acts ?out)" using a d by auto
  have 2: "files ?out = fs - {q. (q = p \<or> q = p @ ''.mp3'') \<and> \<not> unlink_fails w q}"
    by (simp only: f cleanup_twice [OF ne])
  from 0 1 2 show ?thesis by auto
qed

theorem handler_cleanup_on_every_exit_witness:
  "audioPath (transcribe_handler (example_world None 600 False False)
        example_files example_request)
     = Some ''/tmp/yt-transcriber/0b5e''
   \<and> ''/tmp/yt-transcriber/0b5e.mp3'' \<in> example_files
   \<and> \<not> unlink_fails (example_world None 600 False False) ''/tmp/yt-transcriber/0b5e''
   \<and> \<not> unlink_fails (example_world None 600 False False) ''/tmp/yt-transcriber/0b5e.mp3''
   \<and> ''/tmp/yt-transcriber/0b5e''
       \<notin> files (transcribe_handler (example_world None 600 False False)
        example_files example_request)
   \<and> ''/tmp/yt-transcriber/0b5e.mp3''
       \<notin> files (transcribe_handler (example_world None 600 False False)
        example_files example_request)"
proof -
  have h: "audioPath (transcribe_handler (example_world None 600 False False)
        example_files example_request)
     = Some ''/tmp/yt-transcriber/0b5e''"
    by code_simp
  have u: "\<And>q. \<not> unlink_fails (example_world None 600 False False) q"
    by (simp add: example_world_def)
  have e: "''/tmp/yt-transcriber/0b5e.mp3'' \<in> example_files" by (simp add: example_files_def)
  from handler_cleanup_on_every_exit [OF h] h u e show ?thesis by simp
qed

text \<open>
  Claim C1 as stated fails where an unlink fails: the request below succeeds, the
  downloaded file is at the \<open>.mp3\<close>-suffixed path, its unlink reports an error, and the
  file still exists afterwards.
\<close>

theorem handler_cleanup_unlink_failure:
  "audioPath (transcribe_handler (example_world None 600 False True)
        example_files example_request)
     = Some ''/tmp/yt-transcriber/0b5e''
   \<and> ''/tmp/yt-transcriber/0b5e.mp3''
       \<in> files (transcribe_handler (example_world None 600 False True)
        example_files example_request)"
  by code_simp

section \<open>Properties of the /estimate-cost handler\<close>

lemma ceiling_minutes:
  "60 * (\<lceil>of_int d / 60 :: rat\<rceil> - 1) < d \<and> d \<le> 60 * \<lceil>of_int d / 60 :: rat\<rceil>"
proof -
  define m where "m = \<lceil>of_int d / 60 :: rat\<rceil>"
  have "of_int m - 1 < (of_int d / 60 :: rat)" "(of_int d / 60 :: rat) \<le> of_int m"
    unfolding m_def by linarith+
  then have "(of_int (60 * (m - 1)) :: rat) < of_int d" "(of_int d :: rat) \<le> of_int (60 * m)"
    by (simp_all add: field_simps)
  then have "60 * (m - 1) < d \<and> d \<le> 60 * m"
    by (simp only: of_int_less_iff of_int_le_iff)
  then show ?thesis by (simp only: m_def)
qed

text \<open>
  Claim C8, as amended. The cost estimator does not reject a negative duration. Its
  failures are a missing URL (status 400) and a failed metadata lookup (status 500).
  Whenever the URL is present and the lookup resolves, it succeeds for every duration
  of whole seconds, negative or not, of magnitude at most \<open>10^12\<close> (the range in which
  the handler's double arithmetic is exact in every printed digit): it returns as
  minutes the ceiling of the duration divided by 60, a zero cost \<open>0.00\<close> in local mode
  whatever the duration, and in API mode the minutes times the fixed rate of 0.006 per
  minute, printed with four decimals.
\<close>

theorem estimate_cost_accepts_any_sign:
  "(\<not> truthy url \<longrightarrow> estimate_cost w url = Some (Json400 ''URL is required''))
   \<and> (truthy url \<and> getVideoInfo (ytdlp_json w) (or_else url []) = Inl m \<longrightarrow>
        estimate_cost w url = Some (Json500 m))
   \<and> (truthy url \<and> getVideoInfo (ytdlp_json w) (or_else url []) = Inr info
        \<and> \<bar>vi_duration info\<bar> \<le> 10 ^ 12 \<longrightarrow>
        (\<exists>r. estimate_cost w url = Some (Json200 r)
           \<and> e_duration r = vi_duration info
           \<and> e_minutes r = \<lceil>of_int (vi_duration info) / 60 :: rat\<rceil>
           \<and> 60 * (e_minutes r - 1) < vi_duration info \<and> vi_duration info \<le> 60 * e_minutes r
           \<and> (TRANSCRIPTION_MODE w = ''local'' \<longrightarrow> e_cost r = ''0.00'' \<and> e_mode r = ''local'')
           \<and> (TRANSCRIPTION_MODE w \<noteq> ''local'' \<longrightarrow>
                e_cost r = toFixed4 (of_int (e_minutes r) * (6 / 1000))
                \<and> e_formattedCost r = ''$'' @ e_cost r \<and> e_mode r = ''api'')))"
proof (intro conjI impI)
  assume "\<not> truthy url"
  then show "estimate_cost w url = Some (Json400 ''URL is required'')"
    by (simp add: estimate_cost_def)
next
  assume "truthy url \<and> getVideoInfo (ytdlp_json w) (or_else url []) = Inl m"
  then show "estimate_cost w url = Some (Json500 m)"
    by (simp add: estimate_cost_def)
next
  assume h: "truthy url \<and> getVideoInfo (ytdlp_json w) (or_else url []) = Inr info
        \<and> \<bar>vi_duration info\<bar> \<le> 10 ^ 12"
  then have r: "\<not> \<bar>vi_duration info\<bar> > EXACT_DURATION_RANGE"
    by (simp add: EXACT_DURATION_RANGE_def)
  show "\<exists>r. estimate_cost w url = Some (Json200 r)
           \<and> e_duration r = vi_duration info
           \<and> e_minutes r = \<lceil>of_int (vi_duration info) / 60 :: rat\<rceil>
           \<and> 60 * (e_minutes r - 1) < vi_duration info \<and> vi_duration info \<le> 60 * e_minutes r
           \<and> (TRANSCRIPTION_MODE w = ''local'' \<longrightarrow> e_cost r = ''0.00'' \<and> e_mode r = ''local'')
           \<and> (TRANSCRIPTION_MODE w \<noteq> ''local'' \<longrightarrow>
                e_cost r = toFixed4 (of_int (e_minutes r) * (6 / 1000))
                \<and> e_formattedCost r = ''$'' @ e_cost r \<and> e_mode r = ''api'')"
    using h r ceiling_minutes [of "vi_duration info"]
    by (auto simp: estimate_cost_def Let_def)
qed

theorem estimate_cost_accepts_any_sign_witness:
  "truthy (Some example_url)
   \<and> getVideoInfo (ytdlp_json (example_world (Some ''api'') 600 False False))
       (or_else (Some example_url) [])
       = Inr (example_info 600 False)
   \<and> \<bar>vi_duration (example_info 600 False)\<bar> \<le> 10 ^ 12
   \<and> estimate_cost (example_world (Some ''api'') 600 False False) (Some example_url)
       = Some (Json200 \<lparr>e_duration = 600, e_minutes = 10, e_cost = ''0.0600'',
                        e_formattedCost = ''$0.0600'', e_mode = ''api''\<rparr>)
   \<and> estimate_cost (example_world (Some ''api'') 600 False False) None
       = Some (Json400 ''URL is required'')"
proof -
  have h1: "truthy (Some example_url)" by (simp add: truthy_def example_url_def)
  have h2: "getVideoInfo (ytdlp_json (example_world (Some ''api'') 600 False False))
              (or_else (Some example_url) [])
       = Inr (example_info 600 False)"
    by (simp add: getVideoInfo_def example_world_def)
  have h3: "\<bar>vi_duration (example_info 600 False)\<bar> \<le> 10 ^ 12"
    by (simp add: example_info_def)
  have h4: "\<not> truthy None" by (simp add: truthy_def)
  have e: "estimate_cost (example_world (Some ''api'') 600 False False) (Some example_url)
       = Some (Json200 \<lparr>e_duration = 600, e_minutes = 10, e_cost = ''0.0600'',
                        e_formattedCost = ''$0.0600'', e_mode = ''api''\<rparr>)"
    by code_simp
  from estimate_cost_accepts_any_sign
    [of "Some example_url" "example_world (Some ''api'') 600 False False" _
        "example_info 600 False"]
    estimate_cost_accepts_any_sign
    [of None "example_world (Some ''api'') 600 False False"]
    h1 h2 h3 h4 e
  show ?thesis by simp
qed

text \<open>
  Claim C8 as stated fails at a negative duration: for a duration of -120 seconds the
  estimate is not rejected; it succeeds with -2 minutes and a negative cost.
\<close>

theorem estimate_cost_negative_duration_accepted:
  "estimate_cost (example_world (Some ''api'') (- 120) False False) (Some example_url)
     = Some (Json200 \<lparr>e_duration = - 120, e_minutes = - 2, e_cost = ''-0.0120'',
                      e_formattedCost = ''$-0.0120'', e_mode = ''api''\<rparr>)"
  by code_simp

end
